theory Spec2Isabelle
  imports Complex_Main
begin

section \<open>Tooltip placement (src/ui/views/components/tooltip.js)\<close>

text \<open>
  The placement calculator \<open>getTooltipPosition\<close> and its helpers \<open>getDimensions\<close>,
  \<open>getCurrentMouseOffset\<close>, \<open>getDefaultPosition\<close> and \<open>calculateOffset\<close>, embedded as
  HOL functions.

  Modelling conventions.
  \<^item> A JavaScript number is either \<open>NaN\<close> or a finite value, and a finite value is an exact
    rational: the arithmetic of the source (sums, differences, halving) is exact on the
    pixel values it is run on. Infinities and rounding are outside the model.
  \<^item> An exception is a value: the functions that can throw return \<open>error + 'a\<close>.
  \<^item> What the source reads from its host is a parameter: the bounding boxes of the target
    and of the tooltip node, the size of the window, and the host's \<open>JSON.parse\<close>
    (a function from a text to a value, \<open>None\<close> when it throws \<open>SyntaxError\<close>).
  \<^item> A value is plain data: an object's properties hold values, never functions, and its
    prototype is the host's object prototype.
\<close>

subsection \<open>Values of the host language\<close>

datatype number = NaN | Num rat

fun nadd :: "number \<Rightarrow> number \<Rightarrow> number" where
  "nadd (Num x) (Num y) = Num (x + y)"
| "nadd _ _ = NaN"

fun nsub :: "number \<Rightarrow> number \<Rightarrow> number" where
  "nsub (Num x) (Num y) = Num (x - y)"
| "nsub _ _ = NaN"

text \<open>The comparisons \<open><\<close> and \<open>>\<close>: false as soon as one side is \<open>NaN\<close>.\<close>

fun nless :: "number \<Rightarrow> number \<Rightarrow> bool" where
  "nless (Num x) (Num y) = (x < y)"
| "nless _ _ = False"

fun ngreater :: "number \<Rightarrow> number \<Rightarrow> bool" where
  "ngreater (Num x) (Num y) = (x > y)"
| "ngreater _ _ = False"

datatype jsvalue =
    JUndefined
  | JNull
  | JBool bool
  | JNumber rat
  | JString string
  | JArray "jsvalue list"
  | JObject "(string \<times> jsvalue) list"

text \<open>
  A \<open>JObject\<close> lists the object's own enumerable properties in the order \<open>for ... in\<close>
  visits them; in an object every key occurs once.
\<close>

datatype error = SyntaxError | TypeError

subsection \<open>\<open>parseInt(_, 10)\<close>\<close>

text \<open>
  \<open>parseInt\<close> converts its argument to a text and reads an integer from the start of it.

  The text of a number is in decimal notation when the number is 0 or its magnitude is in
  \<open>[1e-6, 1e21)\<close>; then the digits before the decimal point are read, which is the number
  truncated towards zero. Any other number is printed with an exponent, as one leading
  digit, the further digits after a point, and the power of ten; then only the leading
  digit is read (\<open>parseInt(4.7e-7, 10)\<close> is 4). The text is taken to be that of the exact
  value.
\<close>

definition trunc :: "rat \<Rightarrow> int" where
  "trunc x = (if x < 0 then - \<lfloor>- x\<rfloor> else \<lfloor>x\<rfloor>)"

definition printsDecimal :: "rat \<Rightarrow> bool" where
  "printsDecimal x = (x = 0 \<or> (1 / 10 ^ 6 \<le> \<bar>x\<bar> \<and> \<bar>x\<bar> < 10 ^ 21))"

text \<open>The leading decimal digit of a number that is at least 1, and of a positive number below 1.\<close>

function leadingDigitLarge :: "rat \<Rightarrow> int" where
  "leadingDigitLarge y = (if 10 \<le> y then leadingDigitLarge (y / 10) else \<lfloor>y\<rfloor>)"
  by pat_completeness auto
termination
proof (relation "measure (\<lambda>y. nat \<lfloor>y\<rfloor>)")
  show "wf (measure (\<lambda>y::rat. nat \<lfloor>y\<rfloor>))" by simp
next
  fix y :: rat
  assume y: "10 \<le> y"
  have "y / 10 \<le> y - 9" using y by simp
  then have "\<lfloor>y / 10\<rfloor> \<le> \<lfloor>y - 9\<rfloor>" by (rule floor_mono)
  also have "\<dots> = \<lfloor>y\<rfloor> - 9" by simp
  finally have "\<lfloor>y / 10\<rfloor> < \<lfloor>y\<rfloor>" by simp
  moreover have "0 < \<lfloor>y\<rfloor>" using y by simp
  ultimately show "(y / 10, y) \<in> measure (\<lambda>y. nat \<lfloor>y\<rfloor>)" by simp
qed

function leadingDigitSmall :: "rat \<Rightarrow> int" where
  "leadingDigitSmall y = (if 0 < y \<and> y < 1 then leadingDigitSmall (y * 10) else \<lfloor>y\<rfloor>)"
  by pat_completeness auto
termination
proof (relation "measure (\<lambda>y. nat \<lceil>1 / y\<rceil>)")
  show "wf (measure (\<lambda>y::rat. nat \<lceil>1 / y\<rceil>))" by simp
next
  fix y :: rat
  assume "0 < y \<and> y < 1"
  then have y: "0 < y" "y < 1" by simp_all
  define z where "z = 1 / y"
  have z: "1 < z" using y by (simp add: z_def)
  have eq: "1 / (y * 10) = z / 10" by (simp add: z_def)
  have "z / 10 \<le> of_int (\<lceil>z\<rceil> - 1)"
  proof (cases "z \<le> 10")
    case True
    have "2 \<le> \<lceil>z\<rceil>" using z by linarith
    then have "(1::rat) \<le> of_int (\<lceil>z\<rceil> - 1)" by simp
    moreover have "z / 10 \<le> 1" using True by simp
    ultimately show ?thesis by linarith
  next
    case False
    then have "z / 10 \<le> z - 1" by simp
    moreover have "z - 1 \<le> of_int (\<lceil>z\<rceil> - 1)" by simp
    ultimately show ?thesis by linarith
  qed
  then have "\<lceil>z / 10\<rceil> \<le> \<lceil>z\<rceil> - 1" by (rule ceiling_le)
  moreover have "0 < \<lceil>z\<rceil>" using z by linarith
  ultimately show "(y * 10, y) \<in> measure (\<lambda>y. nat \<lceil>1 / y\<rceil>)"
    by (simp add: eq z_def [symmetric])
qed

declare leadingDigitLarge.simps [simp del] leadingDigitSmall.simps [simp del]

definition parseInt_digits :: "rat \<Rightarrow> int" where
  "parseInt_digits x =
     (if printsDecimal x then trunc x
      else (if x < 0 then - 1 else 1) *
           (if 1 \<le> \<bar>x\<bar> then leadingDigitLarge \<bar>x\<bar> else leadingDigitSmall \<bar>x\<bar>))"

fun parseInt_number :: "number \<Rightarrow> number" where
  "parseInt_number NaN = NaN"
| "parseInt_number (Num x) = Num (of_int (parseInt_digits x))"

text \<open>
  On a string: leading white space is skipped, one sign is read, then the longest run
  of decimal digits; no digit gives \<open>NaN\<close>. A \<open>string\<close> is a sequence of code units
  below 256, so the white space of the host is the seven characters listed.
\<close>

definition isWhiteSpace :: "char \<Rightarrow> bool" where
  "isWhiteSpace c = (c \<in> set [CHR 0x09, CHR 0x0A, CHR 0x0B, CHR 0x0C, CHR 0x0D, CHR 0x20, CHR 0xA0])"

definition isDigit :: "char \<Rightarrow> bool" where
  "isDigit c = (48 \<le> (of_char c :: nat) \<and> (of_char c :: nat) \<le> 57)"

definition digitsValue :: "string \<Rightarrow> int" where
  "digitsValue ds = foldl (\<lambda>acc c. 10 * acc + (of_char c - 48)) 0 ds"

definition parseInt_string :: "string \<Rightarrow> number" where
  "parseInt_string inputString =
     (let S = dropWhile isWhiteSpace inputString;
          sign = (if S \<noteq> [] \<and> hd S = CHR ''-'' then - 1 else (1::rat));
          S' = (if S \<noteq> [] \<and> (hd S = CHR ''+'' \<or> hd S = CHR ''-'') then tl S else S);
          Z = takeWhile isDigit S'
      in if Z = [] then NaN else Num (sign * of_int (digitsValue Z)))"

text \<open>
  Any other value is first converted to a text. An object is converted by its \<open>toString\<close>
  method, then by its \<open>valueOf\<close>: an object with a property \<open>toString\<close> of its own (which
  is data, not a function) has no method that gives a text, and the conversion throws
  \<open>TypeError\<close>; any other object prints as a text without a digit. An array prints as its
  elements' texts joined by commas (\<open>null\<close> and \<open>undefined\<close> elements as the empty text),
  so the conversion throws when it throws for some element. Nothing else throws.
\<close>

fun toStringThrows :: "jsvalue \<Rightarrow> bool" where
  "toStringThrows (JObject kvs) = (''toString'' \<in> set (map fst kvs))"
| "toStringThrows (JArray vs) = (\<exists>v \<in> set vs. toStringThrows v)"
| "toStringThrows _ = False"

text \<open>
  What is read from the text when the conversion returns: \<open>undefined\<close>, \<open>null\<close>, booleans
  and objects have no leading digit; in an array's text only the first element can
  contribute digits.
\<close>

fun parseInt_text :: "jsvalue \<Rightarrow> number" where
  "parseInt_text (JNumber x) = parseInt_number (Num x)"
| "parseInt_text (JString s) = parseInt_string s"
| "parseInt_text (JArray (v # vs)) = parseInt_text v"
| "parseInt_text _ = NaN"

definition parseInt :: "jsvalue \<Rightarrow> error + number" where
  "parseInt v = (if toStringThrows v then Inl TypeError else Inr (parseInt_text v))"

subsection \<open>Geometry\<close>

datatype place = Top | Bottom | Left | Right

record DOMRect =
  width :: rat
  height :: rat
  rect_top :: rat
  rect_left :: rat

record window =
  innerWidth :: rat
  innerHeight :: rat

definition getDimensions :: "DOMRect \<Rightarrow> DOMRect" where
  "getDimensions node =
     \<lparr>width = of_int (parseInt_digits (width node)),
      height = of_int (parseInt_digits (height node)),
      rect_top = of_int (parseInt_digits (rect_top node)),
      rect_left = of_int (parseInt_digits (rect_left node))\<rparr>"

definition getCurrentMouseOffset :: "DOMRect \<Rightarrow> rat \<times> rat" where
  "getCurrentMouseOffset currentTarget =
     (let d = getDimensions currentTarget
      in (rect_left d + width d / 2, rect_top d + height d / 2))"

record edges =
  l :: rat
  r :: rat
  t :: rat
  b :: rat

definition triangleHeight :: rat where
  "triangleHeight = 6"

fun getDefaultPosition :: "rat \<Rightarrow> rat \<Rightarrow> rat \<Rightarrow> rat \<Rightarrow> place \<Rightarrow> edges" where
  "getDefaultPosition targetWidth targetHeight tipWidth tipHeight Top =
     \<lparr>l = - (tipWidth / 2),
      r = tipWidth / 2,
      t = - (targetHeight / 2 + tipHeight + triangleHeight),
      b = - (targetHeight / 2)\<rparr>"
| "getDefaultPosition targetWidth targetHeight tipWidth tipHeight Bottom =
     \<lparr>l = - (tipWidth / 2),
      r = tipWidth / 2,
      t = targetHeight / 2 + triangleHeight,
      b = targetHeight / 2 + tipHeight\<rparr>"
| "getDefaultPosition targetWidth targetHeight tipWidth tipHeight Left =
     \<lparr>l = - (tipWidth + targetWidth / 2),
      r = - (targetWidth / 2) + triangleHeight,
      t = - (tipHeight / 2),
      b = tipHeight / 2\<rparr>"
| "getDefaultPosition targetWidth targetHeight tipWidth tipHeight Right =
     \<lparr>l = targetWidth / 2 + triangleHeight,
      r = tipWidth + targetWidth / 2,
      t = - (tipHeight / 2),
      b = tipHeight / 2\<rparr>"

subsection \<open>\<open>calculateOffset\<close>\<close>

text \<open>The \<open>replace\<close> call on the offset string: every single quote becomes a double quote.\<close>

definition replaceQuotes :: "string \<Rightarrow> string" where
  "replaceQuotes s = map (\<lambda>c. if c = CHR 0x27 then CHR 0x22 else c) s"

text \<open>
  The properties \<open>for (let key in offset)\<close> visits, each with the value \<open>offset[key]\<close>
  that the body reads: the entries of an object, the indices of an array or of a
  string, nothing for any other value.
\<close>

function decimal :: "nat \<Rightarrow> string" where
  "decimal n = (if n < 10 then [char_of (48 + n)] else decimal (n div 10) @ [char_of (48 + n mod 10)])"
  by pat_completeness auto
termination
  by (relation "measure id") auto

declare decimal.simps [simp del]

fun enumerableProperties :: "jsvalue \<Rightarrow> (string \<times> jsvalue) list" where
  "enumerableProperties (JObject kvs) = kvs"
| "enumerableProperties (JArray vs) = zip (map decimal [0..<length vs]) vs"
| "enumerableProperties (JString s) = zip (map decimal [0..<length s]) (map (\<lambda>c. JString [c]) s)"
| "enumerableProperties _ = []"

record offsets =
  extraOffsetX :: number
  extraOffsetY :: number

text \<open>The body of the loop: \<open>parseInt\<close> is called under the four keys only, and may throw.\<close>

definition offsetStep :: "offsets \<Rightarrow> string \<times> jsvalue \<Rightarrow> error + offsets" where
  "offsetStep acc kv =
     (let key = fst kv; v = snd kv in
      if key = ''top'' then
        (case parseInt v of Inl e \<Rightarrow> Inl e
         | Inr n \<Rightarrow> Inr (acc\<lparr>extraOffsetY := nsub (extraOffsetY acc) n\<rparr>))
      else if key = ''bottom'' then
        (case parseInt v of Inl e \<Rightarrow> Inl e
         | Inr n \<Rightarrow> Inr (acc\<lparr>extraOffsetY := nadd (extraOffsetY acc) n\<rparr>))
      else if key = ''left'' then
        (case parseInt v of Inl e \<Rightarrow> Inl e
         | Inr n \<Rightarrow> Inr (acc\<lparr>extraOffsetX := nsub (extraOffsetX acc) n\<rparr>))
      else if key = ''right'' then
        (case parseInt v of Inl e \<Rightarrow> Inl e
         | Inr n \<Rightarrow> Inr (acc\<lparr>extraOffsetX := nadd (extraOffsetX acc) n\<rparr>))
      else Inr acc)"

fun forIn :: "offsets \<Rightarrow> (string \<times> jsvalue) list \<Rightarrow> error + offsets" where
  "forIn acc [] = Inr acc"
| "forIn acc (kv # kvs) =
     (case offsetStep acc kv of Inl e \<Rightarrow> Inl e | Inr acc' \<Rightarrow> forIn acc' kvs)"

definition calculateOffset :: "(string \<Rightarrow> jsvalue option) \<Rightarrow> jsvalue \<Rightarrow> error + offsets" where
  "calculateOffset JSON_parse offset =
     (case (case offset of
              JString s \<Rightarrow> JSON_parse (replaceQuotes s)
            | _ \<Rightarrow> Some offset) of
        None \<Rightarrow> Inl SyntaxError
      | Some offset' \<Rightarrow>
          forIn \<lparr>extraOffsetX = Num 0, extraOffsetY = Num 0\<rparr> (enumerableProperties offset'))"

subsection \<open>\<open>getTooltipPosition\<close>\<close>

text \<open>What the inner functions of \<open>getTooltipPosition\<close> close over.\<close>

record scope =
  mouseX :: rat
  mouseY :: rat
  defaultOffset :: "place \<Rightarrow> edges"
  extra :: offsets
  win :: window

definition getTipOffsetLeft :: "scope \<Rightarrow> place \<Rightarrow> number" where
  "getTipOffsetLeft sc p = nadd (Num (mouseX sc + l (defaultOffset sc p))) (extraOffsetX (extra sc))"

definition getTipOffsetRight :: "scope \<Rightarrow> place \<Rightarrow> number" where
  "getTipOffsetRight sc p = nadd (Num (mouseX sc + r (defaultOffset sc p))) (extraOffsetX (extra sc))"

definition getTipOffsetTop :: "scope \<Rightarrow> place \<Rightarrow> number" where
  "getTipOffsetTop sc p = nadd (Num (mouseY sc + t (defaultOffset sc p))) (extraOffsetY (extra sc))"

definition getTipOffsetBottom :: "scope \<Rightarrow> place \<Rightarrow> number" where
  "getTipOffsetBottom sc p = nadd (Num (mouseY sc + b (defaultOffset sc p))) (extraOffsetY (extra sc))"

definition outside :: "scope \<Rightarrow> place \<Rightarrow> bool" where
  "outside sc p =
     (nless (getTipOffsetLeft sc p) (Num 0) \<or>
      ngreater (getTipOffsetRight sc p) (Num (innerWidth (win sc))) \<or>
      nless (getTipOffsetTop sc p) (Num 0) \<or>
      ngreater (getTipOffsetBottom sc p) (Num (innerHeight (win sc))))"

definition inside :: "scope \<Rightarrow> place \<Rightarrow> bool" where
  "inside sc p = (\<not> outside sc p)"

definition insideList :: "scope \<Rightarrow> place list" where
  "insideList sc = filter (inside sc) [Top, Bottom, Left, Right]"

text \<open>\<open>newPlace\<close> stays \<open>undefined\<close> (here \<open>None\<close>) when neither branch assigns it.\<close>

definition newPlace :: "scope \<Rightarrow> place \<Rightarrow> place option" where
  "newPlace sc desiredPlace =
     (if inside sc desiredPlace then Some desiredPlace
      else if length (insideList sc) > 0 \<and> outside sc desiredPlace then Some (hd (insideList sc))
      else None)"

record position =
  pos_left :: number
  pos_top :: number

record result =
  place :: place
  position :: position

definition makeScope :: "window \<Rightarrow> DOMRect \<Rightarrow> DOMRect \<Rightarrow> offsets \<Rightarrow> scope" where
  "makeScope w target node ex =
     (let tip = getDimensions node;
          tgt = getDimensions target;
          m = getCurrentMouseOffset target
      in \<lparr>mouseX = fst m, mouseY = snd m,
          defaultOffset = getDefaultPosition (width tgt) (height tgt) (width tip) (height tip),
          extra = ex, win = w\<rparr>)"

text \<open>
  \<open>target\<close> is the bounding box of \<open>e.currentTarget\<close>, \<open>node\<close> the bounding box of the
  tooltip element. Reading \<open>defaultOffset[undefined].l\<close> throws \<open>TypeError\<close>.
\<close>

definition getTooltipPosition ::
  "(string \<Rightarrow> jsvalue option) \<Rightarrow> window \<Rightarrow> DOMRect \<Rightarrow> DOMRect \<Rightarrow> place \<Rightarrow> jsvalue \<Rightarrow> error + result" where
  "getTooltipPosition JSON_parse w target node desiredPlace offset =
     (case calculateOffset JSON_parse offset of
        Inl e \<Rightarrow> Inl e
      | Inr ex \<Rightarrow>
          (let sc = makeScope w target node ex;
               parentTop = rect_top target;
               parentLeft = rect_left target
           in case newPlace sc desiredPlace of
                None \<Rightarrow> Inl TypeError
              | Some p \<Rightarrow>
                  Inr \<lparr>place = p,
                       position =
                         \<lparr>pos_left = parseInt_number (nsub (getTipOffsetLeft sc p) (Num parentLeft)),
                          pos_top = parseInt_number (nsub (getTipOffsetTop sc p) (Num parentTop))\<rparr>\<rparr>))"

subsection \<open>Auxiliary notions for the statements\<close>

text \<open>
  The pixel count an object gives for a key, as \<open>calculateOffset\<close> reads it when \<open>parseInt\<close>
  returns: what \<open>parseInt\<close> reads from the entry, and 0 when the object has no such key.
  And whether \<open>parseInt\<close> throws on the entry under a key, or under one of the four keys.
\<close>

definition offsetValue :: "(string \<times> jsvalue) list \<Rightarrow> string \<Rightarrow> number" where
  "offsetValue kvs k = (case map_of kvs k of None \<Rightarrow> Num 0 | Some v \<Rightarrow> parseInt_text v)"

definition entryThrows :: "(string \<times> jsvalue) list \<Rightarrow> string \<Rightarrow> bool" where
  "entryThrows kvs k = (case map_of kvs k of None \<Rightarrow> False | Some v \<Rightarrow> toStringThrows v)"

definition offsetThrows :: "(string \<times> jsvalue) list \<Rightarrow> bool" where
  "offsetThrows kvs =
     (entryThrows kvs ''top'' \<or> entryThrows kvs ''bottom'' \<or>
      entryThrows kvs ''left'' \<or> entryThrows kvs ''right'')"

definition recognized :: "string \<Rightarrow> bool" where
  "recognized k = (k = ''top'' \<or> k = ''bottom'' \<or> k = ''left'' \<or> k = ''right'')"

text \<open>The centre of the target, as \<open>getCurrentMouseOffset\<close> computes it.\<close>

definition anchorX :: "DOMRect \<Rightarrow> rat" where
  "anchorX target =
     of_int (parseInt_digits (rect_left target)) + of_int (parseInt_digits (width target)) / 2"

definition anchorY :: "DOMRect \<Rightarrow> rat" where
  "anchorY target =
     of_int (parseInt_digits (rect_top target)) + of_int (parseInt_digits (height target)) / 2"

text \<open>The offset table of a target and a tooltip node.\<close>

definition offsetTable :: "DOMRect \<Rightarrow> DOMRect \<Rightarrow> place \<Rightarrow> edges" where
  "offsetTable target node =
     getDefaultPosition (of_int (parseInt_digits (width target)))
       (of_int (parseInt_digits (height target)))
       (of_int (parseInt_digits (width node))) (of_int (parseInt_digits (height node)))"



text \<open>
  The reflection of a side's entries at the horizontal axis through the target's centre
  (what an exact mirror of \<open>top\<close> below the target would be), and at the vertical axis.
\<close>

definition mirrorVertically :: "edges \<Rightarrow> edges" where
  "mirrorVertically e = \<lparr>l = l e, r = r e, t = - b e, b = - t e\<rparr>"

definition mirrorHorizontally :: "edges \<Rightarrow> edges" where
  "mirrorHorizontally e = \<lparr>l = - r e, r = - l e, t = t e, b = b e\<rparr>"

text \<open>A JSON text written with single quotes in place of its double quotes.\<close>

definition singleQuoted :: "string \<Rightarrow> string" where
  "singleQuoted json = map (\<lambda>c. if c = CHR 0x22 then CHR 0x27 else c) json"

text \<open>
  An example scene: a window; a target with fractional coordinates, one on whole pixels,
  one on whole pixels with an odd height, one pinned at the top of the window and one
  near the top; a tooltip and a wider one of odd width.
\<close>

abbreviation exampleWindow :: window where
  "exampleWindow \<equiv> \<lparr>innerWidth = 1000, innerHeight = 800\<rparr>"

abbreviation exampleTarget :: DOMRect where
  "exampleTarget \<equiv> \<lparr>width = 201 / 2, height = 40, rect_top = 761 / 2, rect_left = 901 / 2\<rparr>"



abbreviation pinnedTarget :: DOMRect where
  "pinnedTarget \<equiv> \<lparr>width = 100, height = 40, rect_top = 0, rect_left = 450\<rparr>"


abbreviation exampleNode :: DOMRect where
  "exampleNode \<equiv> \<lparr>width = 120, height = 30, rect_top = 0, rect_left = 0\<rparr>"


abbreviation noOffset :: offsets where
  "noOffset \<equiv> \<lparr>extraOffsetX = Num 0, extraOffsetY = Num 0\<rparr>"

text \<open>
  The host's \<open>JSON.parse\<close> on the texts of the examples: \<open>jsonTopTen\<close>, the text of the
  object whose one entry gives \<open>top\<close> the value 10, with the key in double quotes
  (\<open>quotedTopTen\<close> is the same text with single quotes); the text \<open>5\<close> of the number 5;
  the other texts the examples use are not JSON.
\<close>

abbreviation jsonTopTen :: string where
  "jsonTopTen \<equiv> [CHR ''{'', CHR 0x22, CHR ''t'', CHR ''o'', CHR ''p'', CHR 0x22, CHR '':'', CHR '' '',
                 CHR ''1'', CHR ''0'', CHR ''}'']"

abbreviation quotedTopTen :: string where
  "quotedTopTen \<equiv> [CHR ''{'', CHR 0x27, CHR ''t'', CHR ''o'', CHR ''p'', CHR 0x27, CHR '':'', CHR '' '',
                   CHR ''1'', CHR ''0'', CHR ''}'']"

definition exampleJSON_parse :: "string \<Rightarrow> jsvalue option" where
  "exampleJSON_parse text =
     (if text = jsonTopTen then Some (JObject [(''top'', JNumber 10)])
      else if text = ''5'' then Some (JNumber 5)
      else None)"

section \<open>Properties\<close>

subsection \<open>Numbers\<close>

lemma floor_rat_numeral_div: "\<lfloor>(numeral m :: rat) / numeral n\<rfloor> = numeral m div numeral n"
  using floor_divide_of_int_eq [of "numeral m" "numeral n", where ?'a = rat] by simp

lemma nadd_zero: "nadd x (Num 0) = x"
  by (cases x) simp_all

lemma nadd_zero_left: "nadd (Num 0) x = x"
  by (cases x) simp_all

lemma nadd_nsub_first: "nadd (nsub x p) (nsub y (Num 0)) = nadd x (nsub y p)"
  by (cases x; cases p; cases y) simp_all

lemma nadd_nadd_first: "nadd (nadd x p) (nsub (Num 0) y) = nadd x (nsub p y)"
  by (cases x; cases p; cases y) simp_all


lemma parseInt_digits_zero: "parseInt_digits 0 = 0"
  by (simp add: parseInt_digits_def printsDecimal_def trunc_def)

lemma leadingDigitLarge_nonneg: "0 \<le> y \<Longrightarrow> 0 \<le> leadingDigitLarge y"
proof (induction y rule: leadingDigitLarge.induct)
  case (1 y)
  show ?case
  proof (cases "10 \<le> y")
    case True
    with "1.IH" have "0 \<le> leadingDigitLarge (y / 10)" by simp
    with True show ?thesis by (subst leadingDigitLarge.simps) simp
  next
    case False
    then have "leadingDigitLarge y = \<lfloor>y\<rfloor>"
      by (subst leadingDigitLarge.simps) (simp only: if_False)
    with "1.prems" show ?thesis by simp
  qed
qed

lemma leadingDigitSmall_nonneg: "0 \<le> y \<Longrightarrow> 0 \<le> leadingDigitSmall y"
proof (induction y rule: leadingDigitSmall.induct)
  case (1 y)
  show ?case
  proof (cases "0 < y \<and> y < 1")
    case True
    with "1.IH" have "0 \<le> leadingDigitSmall (y * 10)" by simp
    with True show ?thesis by (subst leadingDigitSmall.simps) simp
  next
    case False
    then have "leadingDigitSmall y = \<lfloor>y\<rfloor>"
      by (subst leadingDigitSmall.simps) (simp only: if_False)
    with "1.prems" show ?thesis by simp
  qed
qed

lemma parseInt_digits_nonneg: "0 \<le> x \<Longrightarrow> 0 \<le> parseInt_digits x"
  by (simp add: parseInt_digits_def trunc_def leadingDigitLarge_nonneg leadingDigitSmall_nonneg)

lemma floor_rat_one_div: "\<lfloor>1 / (numeral n :: rat)\<rfloor> = 1 div numeral n"
  using floor_divide_of_int_eq [of 1 "numeral n", where ?'a = rat] by simp

text \<open>
  What \<open>parseInt\<close> reads from numbers printed with an exponent (\<open>4.76837158203125e-7\<close>,
  \<open>-9.5367431640625e-7\<close>, \<open>1e+21\<close>, \<open>-2.5e+22\<close>) and from numbers at the ends of the
  decimal range (\<open>-10.5\<close>, \<open>0.000001\<close>).
\<close>

lemma parseInt_digits_exponent_notation:
  "parseInt_digits (1 / 2 ^ 21) = 4"
  "parseInt_digits (- (1 / 2 ^ 20)) = - 9"
  "parseInt_digits (10 ^ 21) = 1"
  "parseInt_digits (- (25 * 10 ^ 21)) = - 2"
  "parseInt_digits (- (21 / 2)) = - 10"
  "parseInt_digits (1 / 10 ^ 6) = 0"
  by (simp_all add: parseInt_digits_def printsDecimal_def trunc_def leadingDigitSmall.simps
        leadingDigitLarge.simps floor_rat_numeral_div floor_rat_one_div)

text \<open>A coordinate on a grid of at most a million steps per pixel prints in decimal notation.\<close>

lemma grid_printsDecimal:
  assumes "of_int n * d \<in> \<int>" and "0 < n" and "n \<le> 10 ^ 6" and "\<bar>d\<bar> < 10 ^ 21"
  shows "printsDecimal d"
proof (cases "d = 0")
  case True
  then show ?thesis by (simp add: printsDecimal_def)
next
  case False
  from assms(1) obtain k :: int where k: "of_int n * d = of_int k" by (auto elim: Ints_cases)
  with False assms(2) have "k \<noteq> 0" by auto
  then have "1 \<le> \<bar>k\<bar>" by simp
  then have "(1::rat) \<le> of_int \<bar>k\<bar>" by (simp only: of_int_1_le_iff)
  also have "of_int \<bar>k\<bar> = \<bar>of_int n * d\<bar>" by (simp add: k)
  also have "\<dots> = of_int n * \<bar>d\<bar>" using assms(2) by (simp add: abs_mult)
  also have "\<dots> \<le> 10 ^ 6 * \<bar>d\<bar>"
  proof (rule mult_right_mono)
    have "(of_int n :: rat) \<le> of_int (10 ^ 6)" using assms(3) by (simp only: of_int_le_iff)
    then show "(of_int n :: rat) \<le> 10 ^ 6" by simp
    show "0 \<le> \<bar>d\<bar>" by simp
  qed
  finally have "1 / 10 ^ 6 \<le> \<bar>d\<bar>" by simp
  with assms(4) show ?thesis unfolding printsDecimal_def by blast
qed









subsection \<open>The scope of the inner functions\<close>

lemma makeScope_sel:
  "mouseX (makeScope w target node ex) = anchorX target"
  "mouseY (makeScope w target node ex) = anchorY target"
  "defaultOffset (makeScope w target node ex) = offsetTable target node"
  "extra (makeScope w target node ex) = ex"
  "win (makeScope w target node ex) = w"
  by (simp_all add: makeScope_def getCurrentMouseOffset_def getDimensions_def Let_def
        anchorX_def anchorY_def offsetTable_def)

subsection \<open>The loop of \<open>calculateOffset\<close>\<close>

lemma offsetValue_absent: "k \<notin> fst ` set kvs \<Longrightarrow> offsetValue kvs k = Num 0"
proof -
  assume "k \<notin> fst ` set kvs"
  then have "map_of kvs k = None" by (simp add: map_of_eq_None_iff)
  then show ?thesis by (simp add: offsetValue_def)
qed

lemma entryThrows_absent: "k \<notin> fst ` set kvs \<Longrightarrow> \<not> entryThrows kvs k"
proof -
  assume "k \<notin> fst ` set kvs"
  then have "map_of kvs k = None" by (simp add: map_of_eq_None_iff)
  then show ?thesis by (simp add: entryThrows_def)
qed

lemma offsetValue_Cons:
  "offsetValue ((k, v) # kvs) k' = (if k' = k then parseInt_text v else offsetValue kvs k')"
  by (simp add: offsetValue_def)

lemma entryThrows_Cons:
  "entryThrows ((k, v) # kvs) k' = (if k' = k then toStringThrows v else entryThrows kvs k')"
  by (simp add: entryThrows_def)

lemma offsetStep_top:
  "offsetStep acc (''top'', v) =
     (if toStringThrows v then Inl TypeError
      else Inr (acc\<lparr>extraOffsetY := nsub (extraOffsetY acc) (parseInt_text v)\<rparr>))"
  by (simp add: offsetStep_def parseInt_def)

lemma offsetStep_bottom:
  "offsetStep acc (''bottom'', v) =
     (if toStringThrows v then Inl TypeError
      else Inr (acc\<lparr>extraOffsetY := nadd (extraOffsetY acc) (parseInt_text v)\<rparr>))"
  by (simp add: offsetStep_def parseInt_def)

lemma offsetStep_left:
  "offsetStep acc (''left'', v) =
     (if toStringThrows v then Inl TypeError
      else Inr (acc\<lparr>extraOffsetX := nsub (extraOffsetX acc) (parseInt_text v)\<rparr>))"
  by (simp add: offsetStep_def parseInt_def)

lemma offsetStep_right:
  "offsetStep acc (''right'', v) =
     (if toStringThrows v then Inl TypeError
      else Inr (acc\<lparr>extraOffsetX := nadd (extraOffsetX acc) (parseInt_text v)\<rparr>))"
  by (simp add: offsetStep_def parseInt_def)

lemma offsetStep_unrecognized: "\<not> recognized (fst kv) \<Longrightarrow> offsetStep acc kv = Inr acc"
  by (simp add: offsetStep_def recognized_def)

text \<open>
  The loop on an object: it throws when \<open>parseInt\<close> throws under one of the four keys, and
  otherwise adds to each axis the value under its adding key minus the value under its
  subtracting key.
\<close>

lemma forIn_closed_form:
  "distinct (map fst kvs) \<Longrightarrow>
   forIn acc kvs =
     (if offsetThrows kvs then Inl TypeError
      else Inr \<lparr>extraOffsetX =
                  nadd (extraOffsetX acc) (nsub (offsetValue kvs ''right'') (offsetValue kvs ''left'')),
                extraOffsetY =
                  nadd (extraOffsetY acc) (nsub (offsetValue kvs ''bottom'') (offsetValue kvs ''top''))\<rparr>)"
proof (induction kvs arbitrary: acc)
  case Nil
  show ?case by (simp add: offsetValue_def offsetThrows_def entryThrows_def nadd_zero)
next
  case (Cons kv kvs)
  obtain k v where kv: "kv = (k, v)" by (cases kv)
  from Cons.prems kv have nk: "k \<notin> fst ` set kvs" and d: "distinct (map fst kvs)"
    by auto
  have absV: "offsetValue kvs k = Num 0" using nk by (rule offsetValue_absent)
  have absT: "\<not> entryThrows kvs k" using nk by (rule entryThrows_absent)
  note IH = Cons.IH [OF d]
  consider (top) "k = ''top''" | (bottom) "k = ''bottom''" | (left) "k = ''left''"
    | (right) "k = ''right''" | (other) "\<not> recognized k"
    by (auto simp: recognized_def)
  then show ?case
  proof cases
    case top
    with absV absT have a: "offsetValue kvs ''top'' = Num 0" "\<not> entryThrows kvs ''top''"
      by simp_all
    show ?thesis
      by (simp add: kv top offsetStep_top IH offsetThrows_def entryThrows_Cons offsetValue_Cons a
            nadd_nsub_first)
  next
    case bottom
    with absV absT have a: "offsetValue kvs ''bottom'' = Num 0" "\<not> entryThrows kvs ''bottom''"
      by simp_all
    show ?thesis
      by (simp add: kv bottom offsetStep_bottom IH offsetThrows_def entryThrows_Cons offsetValue_Cons a
            nadd_nadd_first)
  next
    case left
    with absV absT have a: "offsetValue kvs ''left'' = Num 0" "\<not> entryThrows kvs ''left''"
      by simp_all
    show ?thesis
      by (simp add: kv left offsetStep_left IH offsetThrows_def entryThrows_Cons offsetValue_Cons a
            nadd_nsub_first)
  next
    case right
    with absV absT have a: "offsetValue kvs ''right'' = Num 0" "\<not> entryThrows kvs ''right''"
      by simp_all
    show ?thesis
      by (simp add: kv right offsetStep_right IH offsetThrows_def entryThrows_Cons offsetValue_Cons a
            nadd_nadd_first)
  next
    case other
    then have ne: "k \<noteq> ''top''" "k \<noteq> ''bottom''" "k \<noteq> ''left''" "k \<noteq> ''right''"
      by (auto simp: recognized_def)
    from other have step: "offsetStep acc (k, v) = Inr acc"
      by (simp add: offsetStep_unrecognized)
    show ?thesis
      using ne by (simp add: step IH kv offsetThrows_def entryThrows_Cons offsetValue_Cons)
  qed
qed

lemma forIn_filter:
  "forIn acc (filter (\<lambda>kv. recognized (fst kv)) kvs) = forIn acc kvs"
proof (induction kvs arbitrary: acc)
  case Nil
  show ?case by simp
next
  case (Cons kv kvs)
  show ?case
  proof (cases "recognized (fst kv)")
    case True
    then show ?thesis by (cases "offsetStep acc kv") (simp_all add: Cons.IH)
  next
    case False
    then show ?thesis by (simp add: Cons.IH offsetStep_unrecognized)
  qed
qed

lemma calculateOffset_object:
  "calculateOffset JSON_parse (JObject kvs) = forIn noOffset kvs"
  by (simp add: calculateOffset_def)

lemma calculateOffset_closed_form:
  assumes "distinct (map fst kvs)"
  shows "calculateOffset JSON_parse (JObject kvs) =
     (if offsetThrows kvs then Inl TypeError
      else Inr \<lparr>extraOffsetX = nsub (offsetValue kvs ''right'') (offsetValue kvs ''left''),
                extraOffsetY = nsub (offsetValue kvs ''bottom'') (offsetValue kvs ''top'')\<rparr>)"
  by (simp add: calculateOffset_object forIn_closed_form [OF assms] nadd_zero_left)

lemma calculateOffset_empty: "calculateOffset JSON_parse (JObject []) = Inr noOffset"
  by (simp add: calculateOffset_object)

lemma calculateOffset_top_ten:
  "calculateOffset JSON_parse (JObject [(''top'', JNumber 10)]) =
     Inr \<lparr>extraOffsetX = Num 0, extraOffsetY = Num (- 10)\<rparr>"
  by (simp add: calculateOffset_object offsetStep_top parseInt_digits_def printsDecimal_def trunc_def)


text \<open>
  An entry of which \<open>parseInt\<close> cannot take the text makes the call throw, as in
  \<open>{top: {toString: 5}}\<close>, also inside an array; under a key that is not read it does not,
  and an object that keeps the host's \<open>toString\<close> reads as \<open>NaN\<close>.
\<close>

lemma calculateOffset_examples:
  "calculateOffset JSON_parse (JObject [(''top'', JObject [(''toString'', JNumber 5)])]) = Inl TypeError"
  "calculateOffset JSON_parse
     (JObject [(''left'', JArray [JObject [(''toString'', JNumber 5)], JNumber 1])]) = Inl TypeError"
  "calculateOffset JSON_parse (JObject [(''margin'', JObject [(''toString'', JNumber 5)])]) = Inr noOffset"
  "calculateOffset JSON_parse (JObject [(''top'', JObject [(''valueOf'', JNumber 5)])]) =
     Inr \<lparr>extraOffsetX = Num 0, extraOffsetY = NaN\<rparr>"
  "calculateOffset JSON_parse (JObject [(''bottom'', JString '' 12px''), (''left'', JArray [JNumber 7, JNumber 9])]) =
     Inr \<lparr>extraOffsetX = Num (- 7), extraOffsetY = Num 12\<rparr>"
  by (simp_all add: calculateOffset_object offsetStep_top offsetStep_left offsetStep_bottom
        offsetStep_unrecognized recognized_def parseInt_digits_def printsDecimal_def trunc_def
        parseInt_string_def isWhiteSpace_def isDigit_def digitsValue_def)

lemma replaceQuotes_singleQuoted:
  "CHR 0x27 \<notin> set json \<Longrightarrow> replaceQuotes (singleQuoted json) = json"
  by (induction json) (auto simp: replaceQuotes_def singleQuoted_def)

subsection \<open>The edges of a side\<close>

lemma edges_explicit:
  "getTipOffsetLeft (makeScope w target node ex) p =
     nadd (Num (anchorX target + l (offsetTable target node p))) (extraOffsetX ex)"
  "getTipOffsetRight (makeScope w target node ex) p =
     nadd (Num (anchorX target + r (offsetTable target node p))) (extraOffsetX ex)"
  "getTipOffsetTop (makeScope w target node ex) p =
     nadd (Num (anchorY target + t (offsetTable target node p))) (extraOffsetY ex)"
  "getTipOffsetBottom (makeScope w target node ex) p =
     nadd (Num (anchorY target + b (offsetTable target node p))) (extraOffsetY ex)"
  by (simp_all add: getTipOffsetLeft_def getTipOffsetRight_def getTipOffsetTop_def
        getTipOffsetBottom_def makeScope_sel)

lemmas scene_eval =
  inside_def outside_def edges_explicit makeScope_sel anchorX_def anchorY_def offsetTable_def
  parseInt_digits_def printsDecimal_def trunc_def triangleHeight_def floor_rat_numeral_div

text \<open>The result depends on the offset argument only through \<open>calculateOffset\<close>.\<close>

lemma getTooltipPosition_cong:
  "calculateOffset JSON_parse offset = calculateOffset JSON_parse' offset' \<Longrightarrow>
   getTooltipPosition JSON_parse w target node d offset =
   getTooltipPosition JSON_parse' w target node d offset'"
  by (simp add: getTooltipPosition_def)

lemma getTooltipPosition_place:
  assumes "calculateOffset JSON_parse offset = Inr ex"
    and "newPlace (makeScope w target node ex) desiredPlace = Some p"
  shows "getTooltipPosition JSON_parse w target node desiredPlace offset =
     Inr \<lparr>place = p,
          position =
            \<lparr>pos_left = parseInt_number (nsub (getTipOffsetLeft (makeScope w target node ex) p)
                                               (Num (rect_left target))),
             pos_top = parseInt_number (nsub (getTipOffsetTop (makeScope w target node ex) p)
                                              (Num (rect_top target)))\<rparr>\<rparr>"
  using assms by (simp add: getTooltipPosition_def Let_def)


lemma no_side_inside:
  assumes "calculateOffset JSON_parse offset = Inr ex"
    and "\<And>p. outside (makeScope w target node ex) p"
  shows "getTooltipPosition JSON_parse w target node desiredPlace offset = Inl TypeError"
  using assms by (simp add: getTooltipPosition_def newPlace_def insideList_def inside_def)

subsection \<open>The position of a result\<close>


section \<open>The claims\<close>

subsection \<open>No side inside the window\<close>

text \<open>
  Claim C1 says that when no side is fully inside the window, \<open>getTooltipPosition\<close> returns
  the desired side with the coordinates computed for it, and raises no error. The source
  leaves \<open>newPlace\<close> undefined in that case and then reads \<open>defaultOffset[newPlace].l\<close>:
  whenever the offsets are computed and every side is outside, the call throws \<open>TypeError\<close>
  (lemma \<open>no_side_inside\<close>). The theorem evaluates one such call: a window of 300 by 200,
  a target of 280 by 20 at (10, 90), a tooltip of 200 by 130, the desired side \<open>top\<close> and
  the empty offset object.
\<close>

theorem every_side_outside_throws:
  "getTooltipPosition JSON_parse \<lparr>innerWidth = 300, innerHeight = 200\<rparr>
     \<lparr>width = 280, height = 20, rect_top = 90, rect_left = 10\<rparr>
     \<lparr>width = 200, height = 130, rect_top = 0, rect_left = 0\<rparr> Top (JObject []) = Inl TypeError"
proof (rule no_side_inside)
  show "calculateOffset JSON_parse (JObject []) = Inr noOffset"
    by (rule calculateOffset_empty)
next
  fix p
  show "outside (makeScope \<lparr>innerWidth = 300, innerHeight = 200\<rparr>
     \<lparr>width = 280, height = 20, rect_top = 90, rect_left = 10\<rparr>
     \<lparr>width = 200, height = 130, rect_top = 0, rect_left = 0\<rparr> noOffset) p"
    by (cases p) (simp_all add: scene_eval)
qed

subsection \<open>The chosen side\<close>

text \<open>
  Claim C2: on every input on which the offsets are computed and some side is inside the
  window, \<open>getTooltipPosition\<close> returns, and the side it returns is the desired side when
  that side is inside, and otherwise the first side that is inside in the order top,
  bottom, left, right.
\<close>

theorem chosen_side:
  assumes ex: "calculateOffset JSON_parse offset = Inr ex"
    and some: "inside (makeScope w target node ex) p"
  shows "\<exists>res. getTooltipPosition JSON_parse w target node desiredPlace offset = Inr res \<and>
           place res =
             (if inside (makeScope w target node ex) desiredPlace then desiredPlace
              else if inside (makeScope w target node ex) Top then Top
              else if inside (makeScope w target node ex) Bottom then Bottom
              else if inside (makeScope w target node ex) Left then Left
              else Right)"
  using some
  by (cases p) (auto simp: getTooltipPosition_def ex newPlace_def insideList_def Let_def inside_def)

theorem chosen_side_witness:
  "calculateOffset exampleJSON_parse (JObject []) = Inr noOffset \<and>
   inside (makeScope exampleWindow pinnedTarget exampleNode noOffset) Bottom \<and>
   (\<exists>res. getTooltipPosition exampleJSON_parse exampleWindow pinnedTarget exampleNode Top (JObject [])
            = Inr res \<and> place res = Bottom)"
proof -
  have h1: "calculateOffset exampleJSON_parse (JObject []) = Inr noOffset"
    by (rule calculateOffset_empty)
  have h2: "inside (makeScope exampleWindow pinnedTarget exampleNode noOffset) Bottom"
    by (simp add: scene_eval)
  have h3: "\<not> inside (makeScope exampleWindow pinnedTarget exampleNode noOffset) Top"
    by (simp add: scene_eval)
  from chosen_side [OF h1 h2, of Top] h3 h2
  have "\<exists>res. getTooltipPosition exampleJSON_parse exampleWindow pinnedTarget exampleNode Top (JObject [])
            = Inr res \<and> place res = Bottom"
    by (simp only: if_False if_True)
  with h1 h2 show ?thesis by (intro conjI)
qed

subsection \<open>Outside and inside\<close>

text \<open>
  Claim C3: a side \<open>p\<close> is outside exactly when its left edge is below 0, or its right edge
  is above the window's width, or its top edge is below 0, or its bottom edge is above the
  window's height, where an edge is the anchor coordinate plus the table's entry for \<open>p\<close>
  plus the extra offset; inside is the negation. The first equivalence is for any extra
  offsets (the comparisons are the host's, false on \<open>NaN\<close>), the second spells it out for
  finite ones.
\<close>

theorem outside_iff_edges:
  "(outside (makeScope w target node ex) p \<longleftrightarrow>
      nless (nadd (Num (anchorX target + l (offsetTable target node p))) (extraOffsetX ex)) (Num 0) \<or>
      ngreater (nadd (Num (anchorX target + r (offsetTable target node p))) (extraOffsetX ex))
        (Num (innerWidth w)) \<or>
      nless (nadd (Num (anchorY target + t (offsetTable target node p))) (extraOffsetY ex)) (Num 0) \<or>
      ngreater (nadd (Num (anchorY target + b (offsetTable target node p))) (extraOffsetY ex))
        (Num (innerHeight w))) \<and>
   (outside (makeScope w target node \<lparr>extraOffsetX = Num ox, extraOffsetY = Num oy\<rparr>) p \<longleftrightarrow>
      anchorX target + l (offsetTable target node p) + ox < 0 \<or>
      anchorX target + r (offsetTable target node p) + ox > innerWidth w \<or>
      anchorY target + t (offsetTable target node p) + oy < 0 \<or>
      anchorY target + b (offsetTable target node p) + oy > innerHeight w) \<and>
   (inside (makeScope w target node ex) p \<longleftrightarrow> \<not> outside (makeScope w target node ex) p)"
  by (simp add: outside_def inside_def edges_explicit makeScope_sel)

subsection \<open>A target pinned at the top of the window\<close>

text \<open>
  Claim C4: for a target whose top is 0, the desired side \<open>top\<close>, no offset, and the bottom
  side inside the window, the top edge of the top side is negative, so the top side is
  outside, and the side returned is \<open>bottom\<close>. No offset means that the extra offsets are
  (0, 0), as for the empty object \<open>{}\<close> that the component passes when it is given none.
  The height of the tooltip's bounding box is a length, so it is not negative.
\<close>

theorem pinned_top_falls_back_to_bottom:
  assumes top0: "rect_top target = 0"
    and tip: "0 \<le> height node"
    and none: "calculateOffset JSON_parse offset = Inr noOffset"
    and bottom: "inside (makeScope w target node noOffset) Bottom"
  shows "nless (getTipOffsetTop (makeScope w target node noOffset) Top) (Num 0) \<and>
         outside (makeScope w target node noOffset) Top \<and>
         (\<exists>res. getTooltipPosition JSON_parse w target node Top offset = Inr res \<and>
                place res = Bottom)"
proof -
  have "0 \<le> parseInt_digits (height node)" using tip by (rule parseInt_digits_nonneg)
  then have "(0::rat) \<le> of_int (parseInt_digits (height node))" by simp
  then have neg: "nless (getTipOffsetTop (makeScope w target node noOffset) Top) (Num 0)"
    by (simp add: edges_explicit anchorY_def offsetTable_def top0 parseInt_digits_zero
          triangleHeight_def)
  then have out: "outside (makeScope w target node noOffset) Top"
    by (simp add: outside_def)
  have "\<exists>res. getTooltipPosition JSON_parse w target node Top offset = Inr res \<and> place res = Bottom"
    using out bottom
    by (simp add: getTooltipPosition_def none newPlace_def insideList_def Let_def inside_def)
  with neg out show ?thesis by (intro conjI)
qed

theorem pinned_top_falls_back_to_bottom_witness:
  "rect_top pinnedTarget = 0 \<and>
   0 \<le> height exampleNode \<and>
   calculateOffset exampleJSON_parse (JObject []) = Inr noOffset \<and>
   inside (makeScope exampleWindow pinnedTarget exampleNode noOffset) Bottom \<and>
   nless (getTipOffsetTop (makeScope exampleWindow pinnedTarget exampleNode noOffset) Top) (Num 0) \<and>
   outside (makeScope exampleWindow pinnedTarget exampleNode noOffset) Top \<and>
   (\<exists>res. getTooltipPosition exampleJSON_parse exampleWindow pinnedTarget exampleNode Top (JObject [])
            = Inr res \<and> place res = Bottom)"
proof -
  have h1: "rect_top pinnedTarget = 0" by simp
  have h2: "0 \<le> height exampleNode" by simp
  have h3: "calculateOffset exampleJSON_parse (JObject []) = Inr noOffset"
    by (rule calculateOffset_empty)
  have h4: "inside (makeScope exampleWindow pinnedTarget exampleNode noOffset) Bottom"
    by (simp add: scene_eval)
  from pinned_top_falls_back_to_bottom [OF h1 h2 h3 h4] h1 h2 h3 h4
  show ?thesis by (intro conjI) blast+
qed

subsection \<open>The offset table\<close>

text \<open>
  Claim C5, amended: for every target and tooltip size the table is, relative to the
  target's centre and with the triangle constant 6: for \<open>top\<close>, horizontal entries
  \<open>-tipWidth/2\<close> and \<open>tipWidth/2\<close>, vertical entries \<open>-(targetHeight/2 + tipHeight + 6)\<close> and
  \<open>-(targetHeight/2)\<close>; for \<open>bottom\<close>, the same horizontal entries and vertical entries
  \<open>targetHeight/2 + 6\<close> and \<open>targetHeight/2 + tipHeight\<close>; for \<open>left\<close>, vertical entries
  \<open>-tipHeight/2\<close> and \<open>tipHeight/2\<close>, horizontal entries \<open>-(tipWidth + targetWidth/2)\<close> and
  \<open>-(targetWidth/2) + 6\<close>; for \<open>right\<close>, the same vertical entries and horizontal entries
  \<open>targetWidth/2 + 6\<close> and \<open>tipWidth + targetWidth/2\<close>. So \<open>bottom\<close> is the reflection of
  \<open>top\<close> with its upper entry 6 further from the target and its lower entry 6 nearer, and
  \<open>right\<close> is the reflection of \<open>left\<close> with its left entry 12 further from the centre.
\<close>

theorem offset_table_formulas:
  "getDefaultPosition targetWidth targetHeight tipWidth tipHeight Top =
     \<lparr>l = - (tipWidth / 2), r = tipWidth / 2,
      t = - (targetHeight / 2 + tipHeight + 6), b = - (targetHeight / 2)\<rparr> \<and>
   getDefaultPosition targetWidth targetHeight tipWidth tipHeight Bottom =
     \<lparr>l = - (tipWidth / 2), r = tipWidth / 2,
      t = targetHeight / 2 + 6, b = targetHeight / 2 + tipHeight\<rparr> \<and>
   getDefaultPosition targetWidth targetHeight tipWidth tipHeight Left =
     \<lparr>l = - (tipWidth + targetWidth / 2), r = - (targetWidth / 2) + 6,
      t = - (tipHeight / 2), b = tipHeight / 2\<rparr> \<and>
   getDefaultPosition targetWidth targetHeight tipWidth tipHeight Right =
     \<lparr>l = targetWidth / 2 + 6, r = tipWidth + targetWidth / 2,
      t = - (tipHeight / 2), b = tipHeight / 2\<rparr> \<and>
   getDefaultPosition targetWidth targetHeight tipWidth tipHeight Bottom =
     (let m = mirrorVertically (getDefaultPosition targetWidth targetHeight tipWidth tipHeight Top)
      in m\<lparr>t := t m + 6, b := b m - 6\<rparr>) \<and>
   getDefaultPosition targetWidth targetHeight tipWidth tipHeight Right =
     (let m = mirrorHorizontally (getDefaultPosition targetWidth targetHeight tipWidth tipHeight Left)
      in m\<lparr>l := l m + 12\<rparr>)"
  by (simp add: triangleHeight_def mirrorVertically_def mirrorHorizontally_def Let_def)

text \<open>
  As claim C5 is stated, \<open>bottom\<close> mirrors \<open>top\<close> and \<open>right\<close> mirrors \<open>left\<close>. For a target of
  100 by 40 and a tooltip of 120 by 30 the reflection of \<open>top\<close> has vertical entries 20 and
  56 where the table has 26 and 50, and the reflection of \<open>left\<close> has the left entry 44
  where the table has 56.
\<close>

theorem bottom_is_not_mirror_of_top:
  "getDefaultPosition 100 40 120 30 Bottom \<noteq> mirrorVertically (getDefaultPosition 100 40 120 30 Top) \<and>
   getDefaultPosition 100 40 120 30 Bottom = \<lparr>l = - 60, r = 60, t = 26, b = 50\<rparr> \<and>
   mirrorVertically (getDefaultPosition 100 40 120 30 Top) = \<lparr>l = - 60, r = 60, t = 20, b = 56\<rparr> \<and>
   getDefaultPosition 100 40 120 30 Right \<noteq> mirrorHorizontally (getDefaultPosition 100 40 120 30 Left) \<and>
   getDefaultPosition 100 40 120 30 Right = \<lparr>l = 56, r = 170, t = - 15, b = 15\<rparr> \<and>
   mirrorHorizontally (getDefaultPosition 100 40 120 30 Left) = \<lparr>l = 44, r = 170, t = - 15, b = 15\<rparr>"
  by (simp add: triangleHeight_def mirrorVertically_def mirrorHorizontally_def)

subsection \<open>The returned position\<close>



subsection \<open>What the offset keys do\<close>




subsection \<open>An offset given as a string\<close>

text \<open>
  Claim C8: when the offset is a string that, with its single quotes replaced by double
  quotes, is the JSON text of an object, \<open>calculateOffset\<close> computes the same extra offsets
  from the string as from that object, and \<open>getTooltipPosition\<close> returns the same result.
  In particular this holds for the JSON text of an object written with single quotes in
  place of its double quotes, when the text has no single quote of its own.
\<close>

theorem quoted_string_offset:
  "(JSON_parse (replaceQuotes s) = Some (JObject kvs) \<longrightarrow>
      calculateOffset JSON_parse (JString s) = calculateOffset JSON_parse (JObject kvs) \<and>
      getTooltipPosition JSON_parse w target node desiredPlace (JString s) =
        getTooltipPosition JSON_parse w target node desiredPlace (JObject kvs)) \<and>
   (JSON_parse json = Some (JObject kvs) \<and> CHR 0x27 \<notin> set json \<longrightarrow>
      calculateOffset JSON_parse (JString (singleQuoted json)) =
        calculateOffset JSON_parse (JObject kvs) \<and>
      getTooltipPosition JSON_parse w target node desiredPlace (JString (singleQuoted json)) =
        getTooltipPosition JSON_parse w target node desiredPlace (JObject kvs))"
proof -
  have main: "calculateOffset JSON_parse (JString s') = calculateOffset JSON_parse (JObject kvs)"
    if "JSON_parse (replaceQuotes s') = Some (JObject kvs)" for s'
    using that by (simp add: calculateOffset_def)
  show ?thesis
  proof (intro conjI impI)
    assume a: "JSON_parse (replaceQuotes s) = Some (JObject kvs)"
    show c: "calculateOffset JSON_parse (JString s) = calculateOffset JSON_parse (JObject kvs)"
      using a by (rule main)
    show "getTooltipPosition JSON_parse w target node desiredPlace (JString s) =
        getTooltipPosition JSON_parse w target node desiredPlace (JObject kvs)"
      using c by (rule getTooltipPosition_cong)
  next
    assume a: "JSON_parse json = Some (JObject kvs) \<and> CHR 0x27 \<notin> set json"
    then have "JSON_parse (replaceQuotes (singleQuoted json)) = Some (JObject kvs)"
      by (simp add: replaceQuotes_singleQuoted)
    then show c: "calculateOffset JSON_parse (JString (singleQuoted json)) =
        calculateOffset JSON_parse (JObject kvs)"
      by (rule main)
    show "getTooltipPosition JSON_parse w target node desiredPlace (JString (singleQuoted json)) =
        getTooltipPosition JSON_parse w target node desiredPlace (JObject kvs)"
      using c by (rule getTooltipPosition_cong)
  qed
qed

theorem quoted_string_offset_witness:
  "exampleJSON_parse (replaceQuotes quotedTopTen) = Some (JObject [(''top'', JNumber 10)]) \<and>
   calculateOffset exampleJSON_parse (JString quotedTopTen) =
     Inr \<lparr>extraOffsetX = Num 0, extraOffsetY = Num (- 10)\<rparr> \<and>
   getTooltipPosition exampleJSON_parse exampleWindow exampleTarget exampleNode Top (JString quotedTopTen) =
     getTooltipPosition exampleJSON_parse exampleWindow exampleTarget exampleNode Top
       (JObject [(''top'', JNumber 10)]) \<and>
   exampleJSON_parse jsonTopTen = Some (JObject [(''top'', JNumber 10)]) \<and>
   CHR 0x27 \<notin> set jsonTopTen \<and>
   singleQuoted jsonTopTen = quotedTopTen \<and>
   calculateOffset exampleJSON_parse (JString (singleQuoted jsonTopTen)) =
     Inr \<lparr>extraOffsetX = Num 0, extraOffsetY = Num (- 10)\<rparr>"
proof -
  have sq: "singleQuoted jsonTopTen = quotedTopTen"
    by (simp add: singleQuoted_def)
  have na: "CHR 0x27 \<notin> set jsonTopTen"
    by simp
  have p: "exampleJSON_parse jsonTopTen = Some (JObject [(''top'', JNumber 10)])"
    by (simp add: exampleJSON_parse_def)
  have h: "exampleJSON_parse (replaceQuotes quotedTopTen) = Some (JObject [(''top'', JNumber 10)])"
    by (simp add: replaceQuotes_def exampleJSON_parse_def)
  have c: "calculateOffset exampleJSON_parse (JObject [(''top'', JNumber 10)]) =
      Inr \<lparr>extraOffsetX = Num 0, extraOffsetY = Num (- 10)\<rparr>"
    by (rule calculateOffset_top_ten)
  note inst = quoted_string_offset
    [where JSON_parse = exampleJSON_parse and s = quotedTopTen and json = jsonTopTen
       and w = exampleWindow and target = exampleTarget and node = exampleNode
       and desiredPlace = Top and kvs = "[(''top'', JNumber 10)]"]
  from inst [THEN conjunct1] h c
  have first: "calculateOffset exampleJSON_parse (JString quotedTopTen) =
     Inr \<lparr>extraOffsetX = Num 0, extraOffsetY = Num (- 10)\<rparr> \<and>
   getTooltipPosition exampleJSON_parse exampleWindow exampleTarget exampleNode Top (JString quotedTopTen) =
     getTooltipPosition exampleJSON_parse exampleWindow exampleTarget exampleNode Top
       (JObject [(''top'', JNumber 10)])"
    by (simp only: simp_thms)
  from inst [THEN conjunct2] p na c
  have second: "calculateOffset exampleJSON_parse (JString (singleQuoted jsonTopTen)) =
     Inr \<lparr>extraOffsetX = Num 0, extraOffsetY = Num (- 10)\<rparr>"
    by (simp only: simp_thms)
  from h first p na sq second show ?thesis by (intro conjI) simp_all
qed

text \<open>
  Claim C9, amended: when the host's parser rejects the offset string (after the single
  quotes are replaced by double quotes), \<open>calculateOffset\<close> fails with the parser's
  \<open>SyntaxError\<close> and so does \<open>getTooltipPosition\<close>; nothing catches it and no value stands
  in for the offsets.
\<close>

theorem rejected_offset_string_propagates:
  "JSON_parse (replaceQuotes s) = None \<Longrightarrow>
   calculateOffset JSON_parse (JString s) = Inl SyntaxError \<and>
   getTooltipPosition JSON_parse w target node desiredPlace (JString s) = Inl SyntaxError"
  by (simp add: calculateOffset_def getTooltipPosition_def)

theorem rejected_offset_string_propagates_witness:
  "exampleJSON_parse (replaceQuotes ''top: 10'') = None \<and>
   calculateOffset exampleJSON_parse (JString ''top: 10'') = Inl SyntaxError \<and>
   getTooltipPosition exampleJSON_parse exampleWindow exampleTarget exampleNode Top (JString ''top: 10'')
     = Inl SyntaxError"
proof -
  have h: "exampleJSON_parse (replaceQuotes ''top: 10'') = None"
    by (simp add: replaceQuotes_def exampleJSON_parse_def)
  from rejected_offset_string_propagates
    [where JSON_parse = exampleJSON_parse and s = "''top: 10''" and w = exampleWindow
       and target = exampleTarget and node = exampleNode and desiredPlace = Top, OF h] h
  show ?thesis by (intro conjI) simp_all
qed

text \<open>
  As claim C9 is stated, every string that does not denote a map of numbers fails with a
  parsing error. The string \<open>5\<close> is the JSON text of a number, not of a map: the call
  raises no error, the extra offsets are (0, 0) and the tooltip is placed.
\<close>

theorem non_map_offset_string_is_accepted:
  "exampleJSON_parse (replaceQuotes ''5'') = Some (JNumber 5) \<and>
   calculateOffset exampleJSON_parse (JString ''5'') = Inr noOffset \<and>
   getTooltipPosition exampleJSON_parse exampleWindow exampleTarget exampleNode Top (JString ''5'') =
     Inr \<lparr>place = Top, position = \<lparr>pos_left = Num (- 10), pos_top = Num (- 36)\<rparr>\<rparr>"
proof -
  have h: "exampleJSON_parse (replaceQuotes ''5'') = Some (JNumber 5)"
    by (simp add: replaceQuotes_def exampleJSON_parse_def)
  have c: "calculateOffset exampleJSON_parse (JString ''5'') = Inr noOffset"
    by (simp add: calculateOffset_def h)
  have n: "newPlace (makeScope exampleWindow exampleTarget exampleNode noOffset) Top = Some Top"
    by (simp add: newPlace_def scene_eval)
  have g: "getTooltipPosition exampleJSON_parse exampleWindow exampleTarget exampleNode Top (JString ''5'') =
     Inr \<lparr>place = Top, position = \<lparr>pos_left = Num (- 10), pos_top = Num (- 36)\<rparr>\<rparr>"
    by (simp add: getTooltipPosition_place [OF c n]) (simp add: scene_eval)
  from h c g show ?thesis by (intro conjI)
qed

subsection \<open>Keys other than the four names\<close>

text \<open>
  Claim C10: for every offset object, the entries under keys other than \<open>top\<close>, \<open>bottom\<close>,
  \<open>left\<close> and \<open>right\<close> are ignored: the extra offsets and the result are those of the object
  without these entries; an object with only such keys behaves as the empty object; and
  two objects (with distinct keys) that agree on the four names give the same extra
  offsets and the same result.
\<close>

theorem unrecognized_keys_ignored:
  "calculateOffset JSON_parse (JObject kvs) =
     calculateOffset JSON_parse (JObject (filter (\<lambda>kv. recognized (fst kv)) kvs)) \<and>
   getTooltipPosition JSON_parse w target node desiredPlace (JObject kvs) =
     getTooltipPosition JSON_parse w target node desiredPlace
       (JObject (filter (\<lambda>kv. recognized (fst kv)) kvs)) \<and>
   ((\<forall>kv \<in> set kvs. \<not> recognized (fst kv)) \<longrightarrow>
      calculateOffset JSON_parse (JObject kvs) = calculateOffset JSON_parse (JObject []) \<and>
      getTooltipPosition JSON_parse w target node desiredPlace (JObject kvs) =
        getTooltipPosition JSON_parse w target node desiredPlace (JObject [])) \<and>
   (distinct (map fst kvs) \<and> distinct (map fst kvs') \<and>
    (\<forall>k. recognized k \<longrightarrow> map_of kvs k = map_of kvs' k) \<longrightarrow>
      calculateOffset JSON_parse (JObject kvs) = calculateOffset JSON_parse (JObject kvs') \<and>
      getTooltipPosition JSON_parse w target node desiredPlace (JObject kvs) =
        getTooltipPosition JSON_parse w target node desiredPlace (JObject kvs'))"
proof -
  have eq: "calculateOffset JSON_parse (JObject kvs) =
     calculateOffset JSON_parse (JObject (filter (\<lambda>kv. recognized (fst kv)) kvs))"
    by (simp add: calculateOffset_object forIn_filter)
  have none: "filter (\<lambda>kv. recognized (fst kv)) kvs = []" if "\<forall>kv \<in> set kvs. \<not> recognized (fst kv)"
    using that by (simp add: filter_empty_conv)
  have eq': "getTooltipPosition JSON_parse w target node desiredPlace (JObject kvs) =
     getTooltipPosition JSON_parse w target node desiredPlace
       (JObject (filter (\<lambda>kv. recognized (fst kv)) kvs))"
    using eq by (rule getTooltipPosition_cong)
  have agree: "calculateOffset JSON_parse (JObject kvs) = calculateOffset JSON_parse (JObject kvs')"
    if d: "distinct (map fst kvs)" and d': "distinct (map fst kvs')"
      and m: "\<forall>k. recognized k \<longrightarrow> map_of kvs k = map_of kvs' k"
  proof -
    have "offsetValue kvs k = offsetValue kvs' k" if "recognized k" for k
      using m that by (simp add: offsetValue_def)
    then have v: "offsetValue kvs ''top'' = offsetValue kvs' ''top''"
      "offsetValue kvs ''bottom'' = offsetValue kvs' ''bottom''"
      "offsetValue kvs ''left'' = offsetValue kvs' ''left''"
      "offsetValue kvs ''right'' = offsetValue kvs' ''right''"
      by (simp_all add: recognized_def)
    have "entryThrows kvs k = entryThrows kvs' k" if "recognized k" for k
      using m that by (simp add: entryThrows_def)
    then have "entryThrows kvs ''top'' = entryThrows kvs' ''top''"
      "entryThrows kvs ''bottom'' = entryThrows kvs' ''bottom''"
      "entryThrows kvs ''left'' = entryThrows kvs' ''left''"
      "entryThrows kvs ''right'' = entryThrows kvs' ''right''"
      by (simp_all add: recognized_def)
    then have e: "offsetThrows kvs = offsetThrows kvs'"
      by (simp add: offsetThrows_def)
    show ?thesis
      by (simp only: calculateOffset_closed_form [OF d] calculateOffset_closed_form [OF d'] v e)
  qed
  show ?thesis
  proof (intro conjI impI)
    show "calculateOffset JSON_parse (JObject kvs) =
      calculateOffset JSON_parse (JObject (filter (\<lambda>kv. recognized (fst kv)) kvs))" by (rule eq)
    show "getTooltipPosition JSON_parse w target node desiredPlace (JObject kvs) =
     getTooltipPosition JSON_parse w target node desiredPlace
       (JObject (filter (\<lambda>kv. recognized (fst kv)) kvs))" by (rule eq')
  next
    assume a: "\<forall>kv \<in> set kvs. \<not> recognized (fst kv)"
    show "calculateOffset JSON_parse (JObject kvs) = calculateOffset JSON_parse (JObject [])"
      using eq none [OF a] by simp
    show "getTooltipPosition JSON_parse w target node desiredPlace (JObject kvs) =
        getTooltipPosition JSON_parse w target node desiredPlace (JObject [])"
      using eq' none [OF a] by simp
  next
    assume a: "distinct (map fst kvs) \<and> distinct (map fst kvs') \<and>
      (\<forall>k. recognized k \<longrightarrow> map_of kvs k = map_of kvs' k)"
    then show c: "calculateOffset JSON_parse (JObject kvs) = calculateOffset JSON_parse (JObject kvs')"
      using agree by blast
    then show "getTooltipPosition JSON_parse w target node desiredPlace (JObject kvs) =
        getTooltipPosition JSON_parse w target node desiredPlace (JObject kvs')"
      by (rule getTooltipPosition_cong)
  qed
qed

theorem unrecognized_keys_ignored_witness:
  "\<not> recognized ''margin'' \<and> \<not> recognized ''Top'' \<and>
   calculateOffset exampleJSON_parse (JObject [(''margin'', JNumber 7), (''Top'', JString ''3'')]) =
     Inr noOffset \<and>
   getTooltipPosition exampleJSON_parse exampleWindow exampleTarget exampleNode Top
       (JObject [(''margin'', JNumber 7), (''Top'', JString ''3'')]) =
     getTooltipPosition exampleJSON_parse exampleWindow exampleTarget exampleNode Top (JObject []) \<and>
   distinct (map fst [(''margin'', JNumber 7), (''top'', JNumber 10)]) \<and>
   distinct (map fst [(''top'', JNumber 10), (''padding'', JString ''x'')]) \<and>
   map_of [(''margin'', JNumber 7), (''top'', JNumber 10)] ''top'' =
     map_of [(''top'', JNumber 10), (''padding'', JString ''x'')] ''top'' \<and>
   map_of [(''margin'', JNumber 7), (''top'', JNumber 10)] ''bottom'' =
     map_of [(''top'', JNumber 10), (''padding'', JString ''x'')] ''bottom'' \<and>
   map_of [(''margin'', JNumber 7), (''top'', JNumber 10)] ''left'' =
     map_of [(''top'', JNumber 10), (''padding'', JString ''x'')] ''left'' \<and>
   map_of [(''margin'', JNumber 7), (''top'', JNumber 10)] ''right'' =
     map_of [(''top'', JNumber 10), (''padding'', JString ''x'')] ''right'' \<and>
   calculateOffset exampleJSON_parse (JObject [(''margin'', JNumber 7), (''top'', JNumber 10)]) =
     calculateOffset exampleJSON_parse (JObject [(''top'', JNumber 10), (''padding'', JString ''x'')])"
proof -
  have h: "\<forall>kv \<in> set [(''margin'', JNumber 7), (''Top'', JString ''3'')]. \<not> recognized (fst kv)"
    by (simp add: recognized_def)
  have c: "calculateOffset exampleJSON_parse (JObject []) = Inr noOffset"
    by (rule calculateOffset_empty)
  have u: "\<not> recognized ''margin''" "\<not> recognized ''Top''"
    by (simp_all add: recognized_def)
  from unrecognized_keys_ignored
    [where kvs = "[(''margin'', JNumber 7), (''Top'', JString ''3'')]"
       and JSON_parse = exampleJSON_parse and w = exampleWindow and target = exampleTarget
       and node = exampleNode and desiredPlace = Top,
     THEN conjunct2, THEN conjunct2, THEN conjunct1] h c
  have first: "calculateOffset exampleJSON_parse (JObject [(''margin'', JNumber 7), (''Top'', JString ''3'')]) =
      Inr noOffset \<and>
    getTooltipPosition exampleJSON_parse exampleWindow exampleTarget exampleNode Top
       (JObject [(''margin'', JNumber 7), (''Top'', JString ''3'')]) =
     getTooltipPosition exampleJSON_parse exampleWindow exampleTarget exampleNode Top (JObject [])"
    by (simp only: simp_thms)
  have d: "distinct (map fst [(''margin'', JNumber 7), (''top'', JNumber 10)])"
    "distinct (map fst [(''top'', JNumber 10), (''padding'', JString ''x'')])"
    by simp_all
  have a: "\<forall>k. recognized k \<longrightarrow>
        map_of [(''margin'', JNumber 7), (''top'', JNumber 10)] k =
        map_of [(''top'', JNumber 10), (''padding'', JString ''x'')] k"
    by (auto simp: recognized_def)
  from unrecognized_keys_ignored
    [where kvs = "[(''margin'', JNumber 7), (''top'', JNumber 10)]"
       and kvs' = "[(''top'', JNumber 10), (''padding'', JString ''x'')]"
       and JSON_parse = exampleJSON_parse,
     THEN conjunct2, THEN conjunct2, THEN conjunct2] d a
  have second: "calculateOffset exampleJSON_parse (JObject [(''margin'', JNumber 7), (''top'', JNumber 10)]) =
     calculateOffset exampleJSON_parse (JObject [(''top'', JNumber 10), (''padding'', JString ''x'')])"
    by (simp only: simp_thms)
  from u first d second show ?thesis by (intro conjI) simp_all
qed

end
